theory Spec2Isabelle
  imports Main "HOL-Library.AList" "HOL-Library.Sublist"
begin

section \<open>Values and exceptions\<close>

text \<open>
  Addresses and indices are Python integers. Paths are strings. A Python \<open>dict\<close> is an
  association list with distinct keys in insertion order: \<open>d[k] = v\<close> is
  \<open>AList.update k v d\<close> (the value is replaced in place when the key is present, the
  pair is appended otherwise), \<open>d.get(k)\<close> and \<open>k in d\<close> read \<open>map_of d k\<close>,
  \<open>d.values()\<close> is \<open>map snd d\<close> and \<open>d.items()\<close> is \<open>d\<close> itself.
\<close>

type_synonym AddressT = int
type_synonym Index = int
type_synonym path = string

text \<open>
  The exceptions \<open>program.py\<close> raises, catches or lets through. The spec calls
  \<open>QuokkaError\<close> on a hash mismatch IntegrityError, \<open>ChunkMissingError\<close> on a super
  chunk asked without a block index AmbiguousChunkError, and the \<open>IndexError\<close> and
  \<open>ValueError\<close> of the lookups NotFoundError.
\<close>

datatype error =
    QuokkaError string
  | ChunkMissingError string
  | IndexError
  | ValueError string
  | KeyError string
  | FileNotFoundError string
  | NameError string
  | CalledProcessError
  | TimeoutExpired
  | OSError

datatype level = DEBUG | INFO | WARNING | ERROR

text \<open>
  Modelled from the spec: the enumeration \<open>quokka.types.FunctionType\<close> is not in
  \<open>program.py\<close>. \<open>NORMAL\<close> and \<open>THUNK\<close> are the members the source and the spec name;
  the others are the remaining classifications (imported, library, extern, invalid).
  \<open>list_FunctionType\<close> is \<open>list(FunctionType)\<close>, every member once.
\<close>

datatype FunctionType = NORMAL | IMPORTED | LIBRARY | THUNK | EXTERN | INVALID


text \<open>
  Modelled from the spec: \<open>quokka.Function\<close> is not in \<open>program.py\<close>, which reads its
  \<open>start\<close>, \<open>name\<close> and \<open>type\<close>.
\<close>

record Function =
  start :: AddressT
  name :: string
  type :: FunctionType

record Instruction =
  address :: AddressT
  mnemonic :: string

text \<open>
  Modelled from the spec: \<open>quokka.Chunk\<close> is not in \<open>program.py\<close>. A chunk is a
  contiguous region with an address range (here \<open>start\<close> up to, not including,
  \<open>stop\<close>), a type, its outgoing call-target addresses and its instructions, each
  queryable by the address of its head. \<open>in_chunk\<close> says whether the range contains an
  address; \<open>Chunk_get_instruction\<close> gives the instruction whose head is at the address
  and raises \<open>IndexError\<close> when there is none.
\<close>

record Chunk =
  proto_index :: Index
  start :: AddressT
  stop :: AddressT
  chunk_type :: FunctionType
  fake :: bool
  calls :: "AddressT list"
  instructions :: "Instruction list"

definition in_chunk :: "Chunk \<Rightarrow> AddressT \<Rightarrow> bool" where
  "in_chunk c a = (Chunk.start c \<le> a \<and> a < stop c)"

definition Chunk_get_instruction :: "Chunk \<Rightarrow> AddressT \<Rightarrow> error + Instruction" where
  "Chunk_get_instruction c a =
     (case find (\<lambda>i. address i = a) (instructions c) of
        None \<Rightarrow> Inl IndexError
      | Some i \<Rightarrow> Inr i)"

text \<open>
  Modelled from the spec: \<open>quokka.SuperChunk\<close> is not in \<open>program.py\<close>. A super chunk
  is a mapping from block index to constituent chunk (\<open>constituents\<close>, whose values are
  what iterating \<open>values()\<close> gives) and has a dict \<open>starts\<close> whose values
  \<open>call_graph\<close> reads \<open>calls\<close> from. \<open>get_chunk_by_index\<close> resolves a constituent by
  the pair (chunk index, block index); a super chunk contains an address when one of
  its constituents does, and answers \<open>get_instruction\<close> from the constituents that
  contain the address.
\<close>

record SuperChunk =
  starts :: "(AddressT \<times> Chunk) list"
  constituents :: "(Index \<times> Chunk) list"

definition SuperChunk_values :: "SuperChunk \<Rightarrow> Chunk list" where
  "SuperChunk_values sc = map snd (constituents sc)"

definition get_chunk_by_index :: "SuperChunk \<Rightarrow> Index \<Rightarrow> Index \<Rightarrow> error + Chunk" where
  "get_chunk_by_index sc chunk_index block_index =
     (case map_of (constituents sc) block_index of
        None \<Rightarrow> Inl (ChunkMissingError ''Unable to find the block in the super chunk'')
      | Some c \<Rightarrow> Inr c)"

definition SuperChunk_in_chunk :: "SuperChunk \<Rightarrow> AddressT \<Rightarrow> bool" where
  "SuperChunk_in_chunk sc a = list_ex (\<lambda>c. in_chunk c a) (SuperChunk_values sc)"

fun first_instruction :: "Chunk list \<Rightarrow> AddressT \<Rightarrow> error + Instruction" where
  "first_instruction [] a = Inl IndexError"
| "first_instruction (c # cs) a =
     (if in_chunk c a then
        (case Chunk_get_instruction c a of
           Inr i \<Rightarrow> Inr i
         | Inl e \<Rightarrow> first_instruction cs a)
      else first_instruction cs a)"

definition SuperChunk_get_instruction :: "SuperChunk \<Rightarrow> AddressT \<Rightarrow> error + Instruction" where
  "SuperChunk_get_instruction sc a = first_instruction (SuperChunk_values sc) a"

text \<open>
  An entry of the chunk map is a \<open>Chunk\<close> or a \<open>SuperChunk\<close>; the two classes are
  disjoint (\<open>call_graph\<close> takes everything that is not a \<open>Chunk\<close> for a super chunk).
\<close>

datatype chunk_entry = IsChunk Chunk | IsSuperChunk SuperChunk

section \<open>The export and the collaborators of the constructor\<close>

text \<open>
  The parsed export (\<open>quokka.pb.Quokka\<close>): the fields the constructor reads. The raw
  chunk and function records are opaque (\<open>'c\<close> and \<open>'f\<close>).
\<close>

record ('c, 'f) Quokka =
  exporter_meta_version :: string
  meta_hash :: string
  function_chunks :: "'c list"
  functions_pb :: "'f list"

text \<open>
  What the constructor calls and \<open>program.py\<close> does not define, taken as parameters:
  \<open>quokka.__version__\<close>, \<open>quokka.check_hash\<close>, the constructors
  \<open>quokka.Chunk(chunk_index, program)\<close> and \<open>quokka.Function(func, program)\<close>, and
  \<open>quokka.analysis.split_chunk\<close>. The field \<open>parse_version\<close> is the function of
  that name (the version numbers, major first); whether the constructor can call it
  is decided by \<open>module_globals\<close> below, not by this record.
\<close>

record ('c, 'f) quokka =
  version :: string
  parse_version :: "string \<Rightarrow> int \<times> int list"
  check_hash :: "string \<Rightarrow> path \<Rightarrow> bool"
  new_Chunk :: "('c, 'f) Quokka \<Rightarrow> Index \<Rightarrow> Chunk"
  split_chunk :: "Chunk \<Rightarrow> SuperChunk"
  new_Function :: "('c, 'f) Quokka \<Rightarrow> 'f \<Rightarrow> Function"

section \<open>Program\<close>

text \<open>
  The attributes of a \<open>Program\<close> that the operations below read: the chunk map, the
  name index, the dict the program itself is (start address to function), and what
  the constructor logged. The attributes set from collaborators between the hash
  check and the chunk loop (addresser, architecture, executable, references, data
  holder) are read by none of these operations and are left out.
\<close>

record Program =
  chunks :: "(Index \<times> chunk_entry) list"
  fun_names :: "(string \<times> Function) list"
  items :: "(AddressT \<times> Function) list"
  logged :: "(level \<times> string) list"

definition new_Program :: Program where
  "new_Program = \<lparr>chunks = [], fun_names = [], items = [], logged = []\<rparr>"

definition py_enumerate :: "'a list \<Rightarrow> (Index \<times> 'a) list" where
  "py_enumerate xs = zip (map int [0..<length xs]) xs"

text \<open>
  The names \<open>program.py\<close> binds at module level: its imports (lines 20 to 51) and
  the class it defines. The constructor calls \<open>parse_version\<close> by its bare name
  (line 105); a name that is neither bound here nor a builtin raises \<open>NameError\<close>
  when the call is reached. \<open>parse_version\<close> is not among them.
\<close>

definition module_globals :: "string list" where
  "module_globals =
     [''annotations'', ''collections'', ''cached_property'', ''product'', ''logging'',
      ''os'', ''pathlib'', ''subprocess'', ''capstone'', ''pypcode'', ''networkx'',
      ''quokka'', ''AddressT'', ''Dict'', ''Endianness'', ''ExporterMode'',
      ''FunctionType'', ''Index'', ''Iterable'', ''Iterator'', ''List'', ''Optional'',
      ''Type'', ''Union'', ''Program'']"

text \<open>The version check of lines 103 to 118: it raises, or it returns the object.\<close>

definition version_check ::
  "('c, 'f) quokka \<Rightarrow> ('c, 'f) Quokka \<Rightarrow> Program \<Rightarrow> error + Program" where
  "version_check q proto self =
     (if ''parse_version'' \<notin> set module_globals then Inl (NameError ''parse_version'')
      else
        let proto_version = parse_version q (exporter_meta_version proto);
            current_version = parse_version q (version q)
        in if fst proto_version \<noteq> fst current_version then
             Inr (self\<lparr>logged := logged self @
               [(WARNING,
                 ''The exported file has been generated by a different version of Quokka.''
                 @ '' The file has been generated by Quokka '' @ exporter_meta_version proto
                 @ '' while you are using '' @ version q)]\<rparr>)
           else if exporter_meta_version proto \<noteq> version q then
             Inr (self\<lparr>logged := logged self @
               [(DEBUG,
                 ''Version mismatch detected but still compatible with the exported file.''
                 @ '' The file has been generated by Quokka '' @ exporter_meta_version proto
                 @ '' while you are using '' @ version q)]\<rparr>)
           else Inr self)"

definition make_entry :: "('c, 'f) quokka \<Rightarrow> ('c, 'f) Quokka \<Rightarrow> Index \<Rightarrow> chunk_entry" where
  "make_entry q proto chunk_index =
     (let chunk = new_Chunk q proto chunk_index
      in if fake chunk then IsSuperChunk (split_chunk q chunk) else IsChunk chunk)"

fun chunks_loop ::
  "('c, 'f) quokka \<Rightarrow> ('c, 'f) Quokka \<Rightarrow> (Index \<times> 'c) list \<Rightarrow> Program \<Rightarrow> Program" where
  "chunks_loop q proto [] self = self"
| "chunks_loop q proto ((chunk_index, _) # rest) self =
     chunks_loop q proto rest
       (self\<lparr>chunks := AList.update chunk_index (make_entry q proto chunk_index) (chunks self)\<rparr>)"

text \<open>
  The test \<open>function.type == self.fun_names[function.name]\<close> compares a
  \<open>FunctionType\<close> member with a \<open>Function\<close> object. Python's \<open>==\<close> on two objects of
  unrelated classes that define no equality with each other is identity, so the two
  kinds of object are the two constructors of \<open>pyobj\<close> and \<open>py_eq\<close> is equality on it.
\<close>

datatype pyobj = FunctionType_obj FunctionType | Function_obj Function

definition py_eq :: "pyobj \<Rightarrow> pyobj \<Rightarrow> bool" where
  "py_eq a b = (a = b)"

definition add_function :: "Function \<Rightarrow> Program \<Rightarrow> Program" where
  "add_function function self0 =
     (let self = self0\<lparr>items := AList.update (Function.start function) function (items self0)\<rparr>
      in case map_of (fun_names self) (name function) of
           None \<Rightarrow> self\<lparr>fun_names := AList.update (name function) function (fun_names self)\<rparr>
         | Some existing \<Rightarrow>
             if py_eq (FunctionType_obj (type function)) (Function_obj existing) then
               self\<lparr>logged := logged self
                 @ [(WARNING, ''Found two functions with the same name.'')]\<rparr>
             else if type function = NORMAL then
               self\<lparr>fun_names := AList.update (name function) function (fun_names self)\<rparr>
             else self)"

fun functions_loop ::
  "('c, 'f) quokka \<Rightarrow> ('c, 'f) Quokka \<Rightarrow> 'f list \<Rightarrow> Program \<Rightarrow> Program" where
  "functions_loop q proto [] self = self"
| "functions_loop q proto (func # rest) self =
     functions_loop q proto rest (add_function (new_Function q proto func) self)"

text \<open>
  What one pass of the function loop does to the entry of the function's own name in
  the name index, read off \<open>add_function\<close>: the first function of a name is stored,
  and a later one replaces the stored one exactly when its type is \<open>NORMAL\<close>.
\<close>

definition name_step :: "Function \<Rightarrow> Function option \<Rightarrow> Function option" where
  "name_step f cur =
     (case cur of None \<Rightarrow> Some f | Some e \<Rightarrow> if type f = NORMAL then Some f else Some e)"

text \<open>
  The constructor from the hash check on (lines 120 to 165): the object as these
  lines leave it, and the exception they raised, if any.
\<close>

definition init_from_hash_check ::
  "('c, 'f) quokka \<Rightarrow> ('c, 'f) Quokka \<Rightarrow> path \<Rightarrow> Program \<Rightarrow> Program \<times> error option" where
  "init_from_hash_check q proto exec_path self0 =
     (if \<not> check_hash q (meta_hash proto) exec_path then
        (self0\<lparr>logged := logged self0 @ [(ERROR, ''Hash does not match with file.'')]\<rparr>,
         Some (QuokkaError ''Hash mismatch''))
      else
        (let self = chunks_loop q proto (py_enumerate (function_chunks proto)) self0;
             self = functions_loop q proto (functions_pb proto) self
         in (self, None)))"

text \<open>
  \<open>Program.__init__\<close>, from the parsed export on: the version check, then the rest.
  The result is the object as the constructor leaves it, and the exception it
  raised, if any.
\<close>

definition Program_init ::
  "('c, 'f) quokka \<Rightarrow> ('c, 'f) Quokka \<Rightarrow> path \<Rightarrow> Program \<times> error option" where
  "Program_init q proto exec_path =
     (case version_check q proto new_Program of
        Inl e \<Rightarrow> (new_Program, Some e)
      | Inr self \<Rightarrow> init_from_hash_check q proto exec_path self)"

subsection \<open>get_chunk\<close>

definition get_chunk :: "Program \<Rightarrow> Index \<Rightarrow> Index option \<Rightarrow> error + Chunk" where
  "get_chunk self chunk_index block_index =
     (case map_of (chunks self) chunk_index of
        Some (IsChunk chunk) \<Rightarrow> Inr chunk
      | Some (IsSuperChunk chunk) \<Rightarrow>
          (case block_index of
             None \<Rightarrow> Inl (ChunkMissingError
               ''Unable to find the chunk requested because its a super chunk'')
           | Some b \<Rightarrow> get_chunk_by_index chunk chunk_index b)
      | None \<Rightarrow> Inl (ChunkMissingError ''Unable to find the chunk, index unknown''))"

subsection \<open>iter_chunk\<close>






text \<open>
  The block indices of a super chunk as the spec orders them: ascending, each once.
  Nothing in \<open>program.py\<close> makes a super chunk list them so.
\<close>

definition ascending_blocks :: "SuperChunk \<Rightarrow> bool" where
  "ascending_blocks sc = sorted_wrt (<) (map fst (constituents sc))"


subsection \<open>get_instruction\<close>

definition entry_in_chunk :: "chunk_entry \<Rightarrow> AddressT \<Rightarrow> bool" where
  "entry_in_chunk chunk a =
     (case chunk of IsChunk c \<Rightarrow> in_chunk c a | IsSuperChunk sc \<Rightarrow> SuperChunk_in_chunk sc a)"

definition entry_get_instruction :: "chunk_entry \<Rightarrow> AddressT \<Rightarrow> error + Instruction" where
  "entry_get_instruction chunk a =
     (case chunk of
        IsChunk c \<Rightarrow> Chunk_get_instruction c a
      | IsSuperChunk sc \<Rightarrow> SuperChunk_get_instruction sc a)"

fun get_instruction_loop :: "chunk_entry list \<Rightarrow> AddressT \<Rightarrow> error + Instruction" where
  "get_instruction_loop [] a = Inl IndexError"
| "get_instruction_loop (chunk # rest) a =
     (if entry_in_chunk chunk a then
        (case entry_get_instruction chunk a of
           Inr i \<Rightarrow> Inr i
         | Inl e \<Rightarrow> (if e = IndexError then get_instruction_loop rest a else Inl e))
      else get_instruction_loop rest a)"

definition get_instruction :: "Program \<Rightarrow> AddressT \<Rightarrow> error + Instruction" where
  "get_instruction self a = get_instruction_loop (map snd (chunks self)) a"

text \<open>The chunks of a program, super chunks flattened into their constituents.\<close>

definition entry_chunks :: "chunk_entry \<Rightarrow> Chunk list" where
  "entry_chunks chunk = (case chunk of IsChunk c \<Rightarrow> [c] | IsSuperChunk sc \<Rightarrow> SuperChunk_values sc)"

definition all_chunks :: "Program \<Rightarrow> Chunk list" where
  "all_chunks self = concat (map entry_chunks (map snd (chunks self)))"

definition head_at :: "Chunk \<Rightarrow> AddressT \<Rightarrow> bool" where
  "head_at c a = (a \<in> address ` set (instructions c))"

subsection \<open>get_function\<close>

text \<open>\<open>name in function.name\<close> on strings is \<open>sublist\<close>: a contiguous run.\<close>

fun get_function_loop ::
  "Program \<Rightarrow> string \<Rightarrow> bool \<Rightarrow> (string \<times> Function) list \<Rightarrow> error + Function" where
  "get_function_loop self nm normal [] =
     Inl (ValueError ''Unable to find an appropriate function'')"
| "get_function_loop self nm normal ((function_name, function) # rest) =
     (if sublist nm (name function) \<and> (\<not> normal \<or> type function = NORMAL) then
        (case map_of (fun_names self) function_name of
           Some f \<Rightarrow> Inr f
         | None \<Rightarrow> Inl (KeyError function_name))
      else get_function_loop self nm normal rest)"

definition get_function :: "Program \<Rightarrow> string \<Rightarrow> bool \<Rightarrow> bool \<Rightarrow> error + Function" where
  "get_function self nm approximative normal =
     (if \<not> approximative then
        (case map_of (fun_names self) nm of
           Some f \<Rightarrow> Inr f
         | None \<Rightarrow> Inl (ValueError ''Missing function''))
      else get_function_loop self nm normal (fun_names self))"

subsection \<open>call_graph\<close>

text \<open>
  A node of the graph is whatever object the code hands to networkx: an address
  (\<open>chunk.start\<close>, a call target) or a chunk object (the \<open>small_chunk\<close> of the super
  chunk branch). A \<open>networkx.DiGraph\<close> keeps each node and each directed edge once;
  adding an edge adds its two ends as nodes.
\<close>

datatype node = Addr AddressT | Obj Chunk

record DiGraph =
  nodes :: "node list"
  edges :: "(node \<times> node) list"

definition add_node :: "node \<Rightarrow> DiGraph \<Rightarrow> DiGraph" where
  "add_node n g = (if n \<in> set (nodes g) then g else g\<lparr>nodes := nodes g @ [n]\<rparr>)"

definition add_edge :: "node \<times> node \<Rightarrow> DiGraph \<Rightarrow> DiGraph" where
  "add_edge e g =
     (let g' = add_node (snd e) (add_node (fst e) g)
      in if e \<in> set (edges g') then g' else g'\<lparr>edges := edges g' @ [e]\<rparr>)"

definition add_edges_from :: "(node \<times> node) list \<Rightarrow> DiGraph \<Rightarrow> DiGraph" where
  "add_edges_from es g = fold add_edge es g"

definition product1 :: "'a \<Rightarrow> 'b list \<Rightarrow> ('a \<times> 'b) list" where
  "product1 x ys = map (Pair x) ys"

fun small_chunks_loop :: "Chunk list \<Rightarrow> DiGraph \<Rightarrow> DiGraph" where
  "small_chunks_loop [] g = g"
| "small_chunks_loop (small_chunk # rest) g =
     small_chunks_loop rest
       (add_edges_from (product1 (Obj small_chunk) (map Addr (calls small_chunk))) g)"

fun call_graph_loop :: "chunk_entry list \<Rightarrow> DiGraph \<Rightarrow> DiGraph" where
  "call_graph_loop [] g = g"
| "call_graph_loop (IsChunk chunk # rest) g =
     call_graph_loop rest
       (add_edges_from (product1 (Addr (Chunk.start chunk)) (map Addr (calls chunk)))
          (add_node (Addr (Chunk.start chunk)) g))"
| "call_graph_loop (IsSuperChunk chunk # rest) g =
     call_graph_loop rest (small_chunks_loop (map snd (starts chunk)) g)"

definition call_graph :: "Program \<Rightarrow> DiGraph" where
  "call_graph self = call_graph_loop (map snd (chunks self)) \<lparr>nodes = [], edges = []\<rparr>"

definition in_degree :: "DiGraph \<Rightarrow> node \<Rightarrow> nat" where
  "in_degree g n = length (filter (\<lambda>e. snd e = n) (edges g))"

definition out_degree :: "DiGraph \<Rightarrow> node \<Rightarrow> nat" where
  "out_degree g n = length (filter (\<lambda>e. fst e = n) (edges g))"

text \<open>The edges one entry of the chunk map contributes.\<close>

definition chunk_edges :: "node \<Rightarrow> Chunk \<Rightarrow> (node \<times> node) set" where
  "chunk_edges n c = (\<lambda>z. (n, Addr z)) ` set (calls c)"

fun entry_edges :: "chunk_entry \<Rightarrow> (node \<times> node) set" where
  "entry_edges (IsChunk c) = chunk_edges (Addr (Chunk.start c)) c"
| "entry_edges (IsSuperChunk sc) = (\<Union>s \<in> set (map snd (starts sc)). chunk_edges (Obj s) s)"

subsection \<open>from_binary\<close>

text \<open>
  What \<open>from_binary\<close> sees of the machine: which paths are files when it starts, the
  environment, \<open>Path.with_suffix\<close> with the empty suffix, how the child process
  started by \<open>subprocess.run\<close> ends for a command, environment and timeout together
  with the files there are afterwards, and what \<open>Program(output_file, exec_path)\<close>
  gives. \<open>subprocess.run\<close> with \<open>check=True\<close> raises \<open>CalledProcessError\<close> on a
  non-zero exit status, \<open>TimeoutExpired\<close> when the timeout runs out, and an \<open>OSError\<close>
  when the child cannot be started. The two exception classes are siblings under
  \<open>SubprocessError\<close>: \<open>except CalledProcessError\<close> does not catch \<open>TimeoutExpired\<close>.
  The two log calls of \<open>from_binary\<close> change no result and are left out.
\<close>

datatype process_end = Exited int string | TimedOut | NotStarted

record 'p machine =
  is_file :: "path \<Rightarrow> bool"
  environ :: "(string \<times> string) list"
  with_suffix_empty :: "path \<Rightarrow> path"
  child :: "string list \<Rightarrow> (string \<times> string) list \<Rightarrow> int option
              \<Rightarrow> process_end \<times> (path \<Rightarrow> bool)"
  Program_new :: "path \<Rightarrow> path \<Rightarrow> error + 'p"

definition subprocess_run ::
  "'p machine \<Rightarrow> string list \<Rightarrow> (string \<times> string) list \<Rightarrow> int option \<Rightarrow> bool
     \<Rightarrow> error + (int \<times> string)" where
  "subprocess_run m cmd env timeout check =
     (case fst (child m cmd env timeout) of
        Exited returncode stderr \<Rightarrow>
          (if check \<and> returncode \<noteq> 0 then Inl CalledProcessError
           else Inr (returncode, stderr))
      | TimedOut \<Rightarrow> Inl TimeoutExpired
      | NotStarted \<Rightarrow> Inl OSError)"

definition environ_get :: "(string \<times> string) list \<Rightarrow> string \<Rightarrow> string \<Rightarrow> string" where
  "environ_get env k d = (case map_of env k of None \<Rightarrow> d | Some v \<Rightarrow> v)"

definition construct :: "'p machine \<Rightarrow> path \<Rightarrow> path \<Rightarrow> error + 'p option" where
  "construct m output_file exec_path =
     (case Program_new m output_file exec_path of Inl e \<Rightarrow> Inl e | Inr p \<Rightarrow> Inr (Some p))"

definition from_binary ::
  "'p machine \<Rightarrow> path \<Rightarrow> path option \<Rightarrow> path option \<Rightarrow> bool \<Rightarrow> int option
     \<Rightarrow> error + 'p option" where
  "from_binary m exec_path output_file0 database_file0 debug timeout =
     (if \<not> is_file m exec_path then Inl (FileNotFoundError ''Missing exec file'')
      else
        let output_file =
              (case output_file0 of None \<Rightarrow> exec_path @ ''.Quokka'' | Some f \<Rightarrow> f)
        in if is_file m output_file then construct m output_file exec_path
           else
             let database_file =
                   (case database_file0 of None \<Rightarrow> exec_path @ ''.i64'' | Some f \<Rightarrow> f);
                 additional_options =
                   (if \<not> is_file m database_file
                    then [''-o'' @ with_suffix_empty m database_file] else []);
                 exec_file = (if \<not> is_file m database_file then exec_path else database_file);
                 ida_path = environ_get (environ m) ''IDA_PATH'' ''idat64'';
                 cmd = [ida_path, ''-OQuokkaAuto:true'', ''-OQuokkaFile:'' @ output_file]
                       @ additional_options @ [''-A'', exec_file]
             in case map_of (environ m) ''HOME'' of
                  None \<Rightarrow> Inl (KeyError ''HOME'')
                | Some home \<Rightarrow>
                    let env = [(''TVHEADLESS'', ''1''), (''HOME'', home),
                               (''PATH'', environ_get (environ m) ''PATH'' []),
                               (''TERM'', ''xterm'')]
                    in case subprocess_run m cmd env timeout True of
                         Inl e \<Rightarrow> (if e = CalledProcessError then Inr None else Inl e)
                       | Inr result \<Rightarrow>
                           if \<not> snd (child m cmd env timeout) output_file then Inr None
                           else construct m output_file exec_path)"

section \<open>An example export\<close>

definition chunk_A :: Chunk where
  "chunk_A = \<lparr>proto_index = 0, start = 16, stop = 32, chunk_type = NORMAL, fake = False,
     calls = [64], instructions = [\<lparr>address = 16, mnemonic = ''push''\<rparr>,
       \<lparr>address = 20, mnemonic = ''call''\<rparr>]\<rparr>"

definition chunk_fake :: Chunk where
  "chunk_fake = \<lparr>proto_index = 1, start = 32, stop = 64, chunk_type = NORMAL, fake = True,
     calls = [], instructions = []\<rparr>"

definition part_0 :: Chunk where
  "part_0 = \<lparr>proto_index = 1, start = 32, stop = 48, chunk_type = THUNK, fake = False,
     calls = [16], instructions = [\<lparr>address = 32, mnemonic = ''jmp''\<rparr>]\<rparr>"

definition part_1 :: Chunk where
  "part_1 = \<lparr>proto_index = 1, start = 48, stop = 64, chunk_type = NORMAL, fake = False,
     calls = [], instructions = [\<lparr>address = 48, mnemonic = ''ret''\<rparr>]\<rparr>"

definition chunk_B :: Chunk where
  "chunk_B = \<lparr>proto_index = 2, start = 64, stop = 80, chunk_type = EXTERN, fake = False,
     calls = [16], instructions = [\<lparr>address = 64, mnemonic = ''nop''\<rparr>]\<rparr>"

definition super_1 :: SuperChunk where
  "super_1 = \<lparr>starts = [(32, part_0), (48, part_1)],
     constituents = [(0, part_0), (3, part_1)]\<rparr>"

definition example_quokka :: "(unit, Function) quokka" where
  "example_quokka = \<lparr>version = ''0.5.5'',
     parse_version = (\<lambda>s. if s = ''0.5.5'' \<or> s = ''0.5.4'' then (0, [5]) else (1, [0])),
     check_hash = (\<lambda>h p. p = ''/bin/'' @ h),
     new_Chunk = (\<lambda>proto i. if i = 0 then chunk_A else if i = 1 then chunk_fake else chunk_B),
     split_chunk = (\<lambda>c. super_1),
     new_Function = (\<lambda>proto f. f)\<rparr>"

definition helper_thunk :: Function where
  "helper_thunk = \<lparr>Function.start = 32, name = ''helper'', type = THUNK\<rparr>"

definition helper_normal :: Function where
  "helper_normal = \<lparr>Function.start = 16, name = ''helper'', type = NORMAL\<rparr>"

definition foobar :: Function where
  "foobar = \<lparr>Function.start = 64, name = ''foobar'', type = EXTERN\<rparr>"

definition example_export :: "(unit, Function) Quokka" where
  "example_export = \<lparr>exporter_meta_version = ''0.5.4'', meta_hash = ''ls'',
     function_chunks = [(), (), ()],
     functions_pb = [helper_thunk, foobar, helper_normal]\<rparr>"

text \<open>The program the two loops of the constructor build from the example export.\<close>

definition example_program :: Program where
  "example_program =
     functions_loop example_quokka example_export (functions_pb example_export)
       (chunks_loop example_quokka example_export
          (py_enumerate (function_chunks example_export)) new_Program)"




text \<open>A machine on which the exporter runs into the timeout.\<close>

definition timeout_machine :: "unit machine" where
  "timeout_machine = \<lparr>is_file = (\<lambda>p. p = ''/bin/ls''),
     environ = [(''HOME'', ''/root'')],
     with_suffix_empty = (\<lambda>p. ''/bin/ls''),
     child = (\<lambda>cmd env timeout. (TimedOut, (\<lambda>p. p = ''/bin/ls''))),
     Program_new = (\<lambda>output_file exec_path. Inr ())\<rparr>"

definition swapped_export :: "(unit, Function) Quokka" where
  "swapped_export = example_export\<lparr>functions_pb := [helper_normal, foobar, helper_thunk]\<rparr>"

definition dup_first :: Function where
  "dup_first = \<lparr>Function.start = 16, name = ''dup'', type = NORMAL\<rparr>"

definition dup_second :: Function where
  "dup_second = \<lparr>Function.start = 64, name = ''dup'', type = NORMAL\<rparr>"

definition collision_export :: "(unit, Function) Quokka" where
  "collision_export = example_export\<lparr>functions_pb := [dup_first, dup_second]\<rparr>"

section \<open>Properties\<close>

subsection \<open>What each loop of the constructor touches\<close>

lemma add_function_chunks: "chunks (add_function f self) = chunks self"
  by (simp add: add_function_def Let_def split: option.splits)

lemma functions_loop_chunks: "chunks (functions_loop q proto fs self) = chunks self"
  by (induction fs arbitrary: self) (simp_all add: add_function_chunks)

lemma chunks_loop_fun_names: "fun_names (chunks_loop q proto rest self) = fun_names self"
  by (induction q proto rest self rule: chunks_loop.induct) simp_all

lemma chunks_loop_items: "items (chunks_loop q proto rest self) = items self"
  by (induction q proto rest self rule: chunks_loop.induct) simp_all

subsection \<open>The constructor as the source stands\<close>

lemma parse_version_unbound: "''parse_version'' \<notin> set module_globals"
  by (simp add: module_globals_def)

lemma version_check_raises:
  "version_check q proto self = Inl (NameError ''parse_version'')"
  by (simp add: version_check_def parse_version_unbound)

lemma Program_init_raises:
  "Program_init q proto exec_path = (new_Program, Some (NameError ''parse_version''))"
  by (simp add: Program_init_def version_check_raises)

lemma hash_check_aborts:
  "\<not> check_hash q (meta_hash proto) exec_path \<Longrightarrow>
     snd (init_from_hash_check q proto exec_path self) = Some (QuokkaError ''Hash mismatch'')
     \<and> chunks (fst (init_from_hash_check q proto exec_path self)) = chunks self
     \<and> fun_names (fst (init_from_hash_check q proto exec_path self)) = fun_names self
     \<and> items (fst (init_from_hash_check q proto exec_path self)) = items self"
  by (simp add: init_from_hash_check_def)

subsection \<open>The chunk map the chunk loop builds\<close>

lemma update_fresh: "k \<notin> fst ` set al \<Longrightarrow> AList.update k v al = al @ [(k, v)]"
  by (induction al) auto

lemma chunks_loop_append:
  "distinct (map fst rest) \<Longrightarrow> fst ` set rest \<inter> fst ` set (chunks self) = {} \<Longrightarrow>
   chunks (chunks_loop q proto rest self) =
     chunks self @ map (\<lambda>ix. (fst ix, make_entry q proto (fst ix))) rest"
proof (induction q proto rest self rule: chunks_loop.induct)
  case (1 q proto self)
  then show ?case by simp
next
  case (2 q proto chunk_index uu rest self)
  let ?self' = "self\<lparr>chunks :=
    AList.update chunk_index (make_entry q proto chunk_index) (chunks self)\<rparr>"
  from 2(3) have fresh: "chunk_index \<notin> fst ` set (chunks self)" by auto
  then have upd: "chunks ?self' = chunks self @ [(chunk_index, make_entry q proto chunk_index)]"
    by (simp add: update_fresh)
  have d: "distinct (map fst rest)" using 2(2) by simp
  have "chunk_index \<notin> fst ` set rest" using 2(2) by (auto simp: image_iff)
  with 2(3) have disj: "fst ` set rest \<inter> fst ` set (chunks ?self') = {}"
    unfolding upd by auto
  from "2.IH"[OF d disj] show ?case unfolding upd by simp
qed

lemma py_enumerate_keys: "map fst (py_enumerate xs) = map int [0..<length xs]"
  by (simp add: py_enumerate_def)

lemma loop_chunks:
  assumes "chunks self0 = []"
  shows "chunks (chunks_loop q proto (py_enumerate xs) self0) =
    map (\<lambda>i. (int i, make_entry q proto (int i))) [0..<length xs]"
proof -
  have d: "distinct (map fst (py_enumerate xs))"
    by (simp add: py_enumerate_keys distinct_map inj_on_def)
  have "chunks (chunks_loop q proto (py_enumerate xs) self0)
      = map (\<lambda>ix. (fst ix, make_entry q proto (fst ix))) (py_enumerate xs)"
    using chunks_loop_append[OF d, of self0 q proto] by (simp add: assms)
  also have "\<dots> = map (\<lambda>i. (i, make_entry q proto i)) (map fst (py_enumerate xs))"
    by (simp add: comp_def)
  also have "\<dots> = map (\<lambda>i. (int i, make_entry q proto (int i))) [0..<length xs]"
    by (simp add: py_enumerate_keys comp_def)
  finally show ?thesis .
qed

subsection \<open>The name index the function loop builds\<close>

lemma py_eq_type_function: "\<not> py_eq (FunctionType_obj t) (Function_obj f)"
  by (simp add: py_eq_def)

lemma add_function_fun_names:
  "fun_names (add_function f self) =
     (case map_of (fun_names self) (name f) of
        None \<Rightarrow> AList.update (name f) f (fun_names self)
      | Some e \<Rightarrow> if type f = NORMAL then AList.update (name f) f (fun_names self)
                  else fun_names self)"
  by (simp add: add_function_def Let_def py_eq_type_function split: option.splits)

lemma add_function_lookup:
  "map_of (fun_names (add_function f self)) n =
     (if name f = n then name_step f (map_of (fun_names self) n)
      else map_of (fun_names self) n)"
  by (auto simp: add_function_fun_names name_step_def update_conv' split: option.splits)

lemma functions_loop_lookup:
  "map_of (fun_names (functions_loop q proto fs self)) n =
     fold name_step (filter (\<lambda>f. name f = n) (map (new_Function q proto) fs))
       (map_of (fun_names self) n)"
  by (induction fs arbitrary: self) (simp_all add: add_function_lookup)

lemma add_function_keys_distinct:
  "distinct (map fst (fun_names self)) \<Longrightarrow>
   distinct (map fst (fun_names (add_function f self)))"
  by (simp add: add_function_fun_names distinct_update split: option.splits)

lemma in_update: "p \<in> set (AList.update k v al) \<Longrightarrow> p = (k, v) \<or> p \<in> set al"
  by (induction al) (auto split: if_splits)

lemma add_function_named:
  "\<forall>(k, g) \<in> set (fun_names self). name g = k \<Longrightarrow>
   \<forall>(k, g) \<in> set (fun_names (add_function f self)). name g = k"
  by (auto simp: add_function_fun_names split: option.splits dest!: in_update)

lemma functions_loop_keys_distinct:
  "distinct (map fst (fun_names self)) \<Longrightarrow>
   distinct (map fst (fun_names (functions_loop q proto fs self)))"
  by (induction fs arbitrary: self) (simp_all add: add_function_keys_distinct)

lemma functions_loop_named:
  "\<forall>(k, g) \<in> set (fun_names self). name g = k \<Longrightarrow>
   \<forall>(k, g) \<in> set (fun_names (functions_loop q proto fs self)). name g = k"
proof (induction fs arbitrary: self)
  case Nil
  then show ?case by simp
next
  case (Cons a fs)
  show ?case using Cons.IH[OF add_function_named[OF Cons.prems]] by simp
qed

lemma loop_lookup:
  assumes "fun_names self0 = []"
  shows "map_of (fun_names (functions_loop q proto fs self0)) n =
     fold name_step (filter (\<lambda>f. name f = n) (map (new_Function q proto) fs)) None"
  by (simp add: functions_loop_lookup assms)

lemma loop_keys_distinct:
  assumes "fun_names self0 = []"
  shows "distinct (map fst (fun_names (functions_loop q proto fs self0)))"
  by (rule functions_loop_keys_distinct) (simp add: assms)

lemma loop_named:
  assumes "fun_names self0 = []"
  shows "\<forall>(k, g) \<in> set (fun_names (functions_loop q proto fs self0)). name g = k"
  by (rule functions_loop_named) (simp add: assms)

lemma get_function_loop_find:
  assumes "\<forall>(k, g) \<in> set al. map_of (fun_names self) k = Some g \<and> name g = k"
  shows "get_function_loop self nm normal al =
     (case find (\<lambda>(k, f). sublist nm k \<and> (normal \<longrightarrow> type f = NORMAL)) al of
        None \<Rightarrow> Inl (ValueError ''Unable to find an appropriate function'')
      | Some (k, f) \<Rightarrow> Inr f)"
  using assms
proof (induction al)
  case Nil
  then show ?case by simp
next
  case (Cons a al)
  obtain k g where a: "a = (k, g)" by (cases a)
  from Cons.prems a have kg: "map_of (fun_names self) k = Some g" "name g = k" by auto
  from Cons.prems
  have rest: "\<forall>(k, g) \<in> set al. map_of (fun_names self) k = Some g \<and> name g = k"
    by auto
  show ?case using Cons.IH[OF rest] kg by (auto simp: a)
qed

subsection \<open>The example export, run through the two loops\<close>

lemma example_start:
  "fun_names (chunks_loop example_quokka example_export
     (py_enumerate (function_chunks example_export)) new_Program) = []"
  by (simp add: chunks_loop_fun_names new_Program_def)

lemma example_fun_names:
  "fun_names example_program = [(''helper'', helper_normal), (''foobar'', foobar)]"
  by (simp add: example_program_def example_quokka_def example_export_def
      chunks_loop_fun_names new_Program_def add_function_fun_names helper_thunk_def
      helper_normal_def foobar_def)

lemma sublist_examples:
  "sublist ''foo'' ''foobar''" "\<not> sublist ''foo'' ''helper''" "sublist ''lp'' ''helper''"
  "\<not> sublist ''zed'' ''helper''" "\<not> sublist ''zed'' ''foobar''"
  "\<not> sublist ''o'' ''helper''" "sublist ''o'' ''foobar''"
  by code_simp+

subsection \<open>Construction\<close>

text \<open>
  C1, at the input where the code leaves the claim. The export holds two functions
  named \<open>dup\<close>, both of type \<open>NORMAL\<close>. After the function loop the name index holds
  the second one: the comparison that should keep the first-inserted function on
  equal types compares a type with a function object and is never true, so a
  \<open>NORMAL\<close> function replaces whatever is stored under its name.
\<close>

theorem same_type_collision_replaces:
  "functions_pb collision_export = [dup_first, dup_second]
   \<and> name dup_first = name dup_second
   \<and> type dup_first = type dup_second
   \<and> map_of (fun_names (functions_loop example_quokka collision_export
                 (functions_pb collision_export) new_Program)) ''dup''
       = Some dup_second
   \<and> dup_second \<noteq> dup_first"
proof -
  have e: "fun_names new_Program = []" by (simp add: new_Program_def)
  have "map_of (fun_names (functions_loop example_quokka collision_export
                 (functions_pb collision_export) new_Program)) ''dup'' = Some dup_second"
    unfolding loop_lookup[OF e]
    by (simp add: collision_export_def example_quokka_def name_step_def dup_first_def
        dup_second_def)
  then show ?thesis
    by (simp add: dup_first_def dup_second_def collision_export_def)
qed

text \<open>
  C3, at the input where the code leaves the claim. The hash stored in the example
  export does not match the executable \<open>/bin/cat\<close>. Construction fails, and with an
  empty chunk map, name index and start-address map; but it fails with \<open>NameError\<close>
  at the call of \<open>parse_version\<close> in line 105, a name the module does not bind, and
  never reaches the hash check of line 121 that raises \<open>QuokkaError\<close> (the spec's
  IntegrityError). (The hash check itself, once reached, raises on a mismatch and
  populates nothing: \<open>hash_check_aborts\<close>.)
\<close>

theorem construction_stops_before_hash_check:
  "\<not> check_hash example_quokka (meta_hash example_export) ''/bin/cat''
   \<and> snd (Program_init example_quokka example_export ''/bin/cat'')
       = Some (NameError ''parse_version'')
   \<and> snd (Program_init example_quokka example_export ''/bin/cat'')
       \<noteq> Some (QuokkaError ''Hash mismatch'')
   \<and> chunks (fst (Program_init example_quokka example_export ''/bin/cat'')) = []
   \<and> fun_names (fst (Program_init example_quokka example_export ''/bin/cat'')) = []
   \<and> items (fst (Program_init example_quokka example_export ''/bin/cat'')) = []"
  by (simp add: Program_init_raises new_Program_def example_quokka_def example_export_def)

subsection \<open>get_function\<close>

text \<open>
  C5. For every export with exactly two functions named \<open>helper\<close>, one of type
  \<open>NORMAL\<close> and one of type \<open>THUNK\<close>, in either order of appearance, the exact lookup
  \<open>get_function("helper", approximative=False)\<close> on the program whose name index
  the constructor's function loop built from an empty index returns the \<open>NORMAL\<close>
  one.
\<close>

theorem helper_normal_wins:
  assumes "fun_names self0 = []"
    and "filter (\<lambda>f. name f = ''helper'') (map (new_Function q proto) (functions_pb proto))
           = [f, g]"
    and "(type f = NORMAL \<and> type g = THUNK) \<or> (type f = THUNK \<and> type g = NORMAL)"
  shows "get_function (functions_loop q proto (functions_pb proto) self0) ''helper'' False normal
           = Inr (if type f = NORMAL then f else g)"
proof -
  have "map_of (fun_names (functions_loop q proto (functions_pb proto) self0)) ''helper''
      = name_step g (name_step f None)"
    unfolding loop_lookup[OF assms(1)] assms(2) by simp
  also have "\<dots> = Some (if type f = NORMAL then f else g)"
    using assms(3) by (auto simp: name_step_def)
  finally show ?thesis by (simp add: get_function_def)
qed

theorem helper_normal_wins_witness:
  "get_function example_program ''helper'' False False = Inr helper_normal
   \<and> get_function (functions_loop example_quokka swapped_export (functions_pb swapped_export)
        new_Program) ''helper'' False False = Inr helper_normal
   \<and> functions_pb example_export = [helper_thunk, foobar, helper_normal]
   \<and> functions_pb swapped_export = [helper_normal, foobar, helper_thunk]
   \<and> type helper_normal = NORMAL \<and> type helper_thunk = THUNK"
proof -
  have e: "fun_names new_Program = []" by (simp add: new_Program_def)
  have f1: "filter (\<lambda>f. name f = ''helper'')
      (map (new_Function example_quokka example_export) (functions_pb example_export))
      = [helper_thunk, helper_normal]"
    by (simp add: example_quokka_def example_export_def helper_thunk_def helper_normal_def
        foobar_def)
  have f2: "filter (\<lambda>f. name f = ''helper'')
      (map (new_Function example_quokka swapped_export) (functions_pb swapped_export))
      = [helper_normal, helper_thunk]"
    by (simp add: example_quokka_def swapped_export_def example_export_def helper_thunk_def
        helper_normal_def foobar_def)
  have t1: "(type helper_thunk = NORMAL \<and> type helper_normal = THUNK)
      \<or> (type helper_thunk = THUNK \<and> type helper_normal = NORMAL)"
    by (simp add: helper_thunk_def helper_normal_def)
  have t2: "(type helper_normal = NORMAL \<and> type helper_thunk = THUNK)
      \<or> (type helper_normal = THUNK \<and> type helper_thunk = NORMAL)"
    by (simp add: helper_thunk_def helper_normal_def)
  have a: "get_function example_program ''helper'' False False = Inr helper_normal"
    using helper_normal_wins[OF example_start f1 t1, of False]
    by (simp add: example_program_def helper_thunk_def)
  have b: "get_function (functions_loop example_quokka swapped_export
        (functions_pb swapped_export) new_Program) ''helper'' False False = Inr helper_normal"
    using helper_normal_wins[OF e f2 t2, of False] by (simp add: helper_normal_def)
  have c: "type helper_normal = NORMAL \<and> type helper_thunk = THUNK"
    by (simp add: helper_thunk_def helper_normal_def)
  show ?thesis using a b c by (simp add: example_export_def swapped_export_def)
qed

text \<open>
  C8. On the program whose name index the constructor's function loop built from an
  empty index, when the export has no function named exactly \<open>nm\<close> (for instance
  \<open>foo\<close>, even if a function \<open>foobar\<close> exists), the exact lookup raises \<open>ValueError\<close>
  (the spec's NotFoundError). The approximate lookup scans the name index in
  iteration order and returns the first function whose name contains \<open>nm\<close> and, when
  \<open>normal\<close> is set, whose type is \<open>NORMAL\<close>; it raises \<open>ValueError\<close> when no entry
  matches.
\<close>

theorem get_function_exact_and_approximate:
  assumes "fun_names self0 = []"
    and "p = functions_loop q proto (functions_pb proto) self0"
  shows "((\<forall>f \<in> set (functions_pb proto). name (new_Function q proto f) \<noteq> nm) \<longrightarrow>
            get_function p nm False normal = Inl (ValueError ''Missing function''))
    \<and> get_function p nm True normal =
        (case find (\<lambda>(k, f). sublist nm k \<and> (normal \<longrightarrow> type f = NORMAL)) (fun_names p) of
           None \<Rightarrow> Inl (ValueError ''Unable to find an appropriate function'')
         | Some (k, f) \<Rightarrow> Inr f)"
proof (intro conjI impI)
  assume none: "\<forall>f \<in> set (functions_pb proto). name (new_Function q proto f) \<noteq> nm"
  then have "filter (\<lambda>f. name f = nm) (map (new_Function q proto) (functions_pb proto)) = []"
    by (auto simp: filter_empty_conv)
  then have "map_of (fun_names p) nm = None"
    unfolding assms(2) loop_lookup[OF assms(1)] by simp
  then show "get_function p nm False normal = Inl (ValueError ''Missing function'')"
    by (simp add: get_function_def)
next
  have d: "distinct (map fst (fun_names p))"
    unfolding assms(2) by (rule loop_keys_distinct[OF assms(1)])
  have n: "\<forall>(k, g) \<in> set (fun_names p). name g = k"
    unfolding assms(2) by (rule loop_named[OF assms(1)])
  have "\<forall>(k, g) \<in> set (fun_names p). map_of (fun_names p) k = Some g \<and> name g = k"
    using n d by auto
  from get_function_loop_find[OF this]
  show "get_function p nm True normal =
        (case find (\<lambda>(k, f). sublist nm k \<and> (normal \<longrightarrow> type f = NORMAL)) (fun_names p) of
           None \<Rightarrow> Inl (ValueError ''Unable to find an appropriate function'')
         | Some (k, f) \<Rightarrow> Inr f)"
    by (simp add: get_function_def)
qed

theorem get_function_exact_and_approximate_witness:
  "''foo'' \<notin> set (map (\<lambda>f. name (new_Function example_quokka example_export f))
                   (functions_pb example_export))
   \<and> foobar \<in> set (functions_pb example_export)
   \<and> get_function example_program ''foo'' False False = Inl (ValueError ''Missing function'')
   \<and> get_function example_program ''foo'' True False = Inr foobar
   \<and> get_function example_program ''lp'' True False = Inr helper_normal
   \<and> get_function example_program ''o'' True True =
        Inl (ValueError ''Unable to find an appropriate function'')
   \<and> get_function example_program ''zed'' True False =
        Inl (ValueError ''Unable to find an appropriate function'')"
proof -
  have h: "\<forall>f \<in> set (functions_pb example_export).
      name (new_Function example_quokka example_export f) \<noteq> ''foo''"
    by (simp add: example_quokka_def example_export_def helper_thunk_def helper_normal_def
        foobar_def)
  note t = get_function_exact_and_approximate[OF example_start example_program_def]
  have a: "get_function example_program ''foo'' False False
      = Inl (ValueError ''Missing function'')"
    using t[of "''foo''" False] h by blast
  have b: "get_function example_program ''foo'' True False = Inr foobar"
    using t[of "''foo''" False]
    by (simp add: example_fun_names sublist_examples helper_normal_def foobar_def)
  have c: "get_function example_program ''lp'' True False = Inr helper_normal"
    using t[of "''lp''" False] by (simp add: example_fun_names sublist_examples)
  have d: "get_function example_program ''o'' True True =
        Inl (ValueError ''Unable to find an appropriate function'')"
    using t[of "''o''" True]
    by (simp add: example_fun_names sublist_examples helper_normal_def foobar_def)
  have e: "get_function example_program ''zed'' True False =
        Inl (ValueError ''Unable to find an appropriate function'')"
    using t[of "''zed''" False] by (simp add: example_fun_names sublist_examples)
  have f: "foobar \<in> set (functions_pb example_export)" by (simp add: example_export_def)
  show ?thesis using h a b c d e f by auto
qed

subsection \<open>get_chunk\<close>

lemma example_chunks:
  "chunks example_program =
     [(0, IsChunk chunk_A), (1, IsSuperChunk super_1), (2, IsChunk chunk_B)]"
proof -
  have e: "chunks new_Program = []" by (simp add: new_Program_def)
  show ?thesis
    unfolding example_program_def functions_loop_chunks loop_chunks[OF e]
    by (simp add: example_quokka_def example_export_def make_entry_def upt_rec
        chunk_A_def chunk_fake_def chunk_B_def)
qed

text \<open>
  C9. For every chunk index whose entry in the chunk map is a super chunk,
  \<open>get_chunk\<close> without a block index fails with the \<open>ChunkMissingError\<close> of the
  ambiguous request (the spec's AmbiguousChunkError) and never returns the super
  chunk; on an index absent from the chunk map it fails too, whatever the block index.
\<close>

theorem get_chunk_super_or_absent_fails:
  "(map_of (chunks self) chunk_index = Some (IsSuperChunk sc) \<longrightarrow>
      get_chunk self chunk_index None =
        Inl (ChunkMissingError ''Unable to find the chunk requested because its a super chunk''))
   \<and> (map_of (chunks self) chunk_index = None \<longrightarrow>
      get_chunk self chunk_index block_index =
        Inl (ChunkMissingError ''Unable to find the chunk, index unknown''))"
  by (simp add: get_chunk_def)

theorem get_chunk_super_or_absent_fails_witness:
  "map_of (chunks example_program) 1 = Some (IsSuperChunk super_1)
   \<and> get_chunk example_program 1 None =
        Inl (ChunkMissingError ''Unable to find the chunk requested because its a super chunk'')
   \<and> map_of (chunks example_program) 7 = None
   \<and> get_chunk example_program 7 (Some 0) =
        Inl (ChunkMissingError ''Unable to find the chunk, index unknown'')"
  using get_chunk_super_or_absent_fails [of example_program 1 super_1]
    get_chunk_super_or_absent_fails [of example_program 7 super_1 "Some 0"]
  by (simp add: example_chunks)

text \<open>
  C10. For every chunk index whose entry in the chunk map is an ordinary chunk,
  \<open>get_chunk\<close> returns that chunk for every block index, given or not: the block index
  is ignored and never an error.
\<close>

theorem get_chunk_ordinary_ignores_block_index:
  "map_of (chunks self) chunk_index = Some (IsChunk c) \<Longrightarrow>
     get_chunk self chunk_index block_index = Inr c"
  by (simp add: get_chunk_def)

theorem get_chunk_ordinary_ignores_block_index_witness:
  "map_of (chunks example_program) 2 = Some (IsChunk chunk_B)
   \<and> get_chunk example_program 2 (Some 99) = Inr chunk_B
   \<and> get_chunk example_program 2 None = Inr chunk_B"
  using get_chunk_ordinary_ignores_block_index [of example_program 2 chunk_B "Some 99"]
    get_chunk_ordinary_ignores_block_index [of example_program 2 chunk_B None]
  by (simp add: example_chunks)

subsection \<open>iter_chunk\<close>






lemma ascending_distinct: "ascending_blocks sc \<Longrightarrow> distinct (map fst (constituents sc))"
  unfolding ascending_blocks_def by (simp add: strict_sorted_iff)


















subsection \<open>get_instruction\<close>

lemma Chunk_get_instruction_cases:
  "(Chunk_get_instruction c a = Inl IndexError \<and> \<not> head_at c a)
   \<or> (\<exists>i \<in> set (instructions c). address i = a \<and> Chunk_get_instruction c a = Inr i)"
proof (cases "find (\<lambda>i. address i = a) (instructions c)")
  case None
  then have "\<not> head_at c a" by (auto simp: head_at_def find_None_iff)
  then show ?thesis using None by (simp add: Chunk_get_instruction_def)
next
  case (Some i)
  then have "i \<in> set (instructions c) \<and> address i = a"
    by (auto simp: find_Some_iff)
  then show ?thesis using Some by (auto simp: Chunk_get_instruction_def)
qed

lemma head_at_iff: "head_at c a \<longleftrightarrow> (\<exists>i \<in> set (instructions c). address i = a)"
  by (auto simp: head_at_def)

lemma first_instruction_cases:
  "(first_instruction cs a = Inl IndexError \<and> (\<forall>c \<in> set cs. in_chunk c a \<longrightarrow> \<not> head_at c a))
   \<or> (\<exists>c \<in> set cs. \<exists>i \<in> set (instructions c).
         in_chunk c a \<and> address i = a \<and> first_instruction cs a = Inr i)"
proof (induction cs)
  case Nil
  then show ?case by simp
next
  case (Cons c cs)
  show ?case
  proof (cases "in_chunk c a")
    case False
    then show ?thesis using Cons by auto
  next
    case True
    from Chunk_get_instruction_cases[of c a] show ?thesis
    proof
      assume "Chunk_get_instruction c a = Inl IndexError \<and> \<not> head_at c a"
      then show ?thesis using Cons True by auto
    next
      assume "\<exists>i \<in> set (instructions c). address i = a \<and> Chunk_get_instruction c a = Inr i"
      then show ?thesis using True by auto
    qed
  qed
qed

lemma entry_cases:
  "((\<not> entry_in_chunk e a \<or> entry_get_instruction e a = Inl IndexError)
      \<and> (\<forall>c \<in> set (entry_chunks e). in_chunk c a \<longrightarrow> \<not> head_at c a))
   \<or> (entry_in_chunk e a \<and>
       (\<exists>c \<in> set (entry_chunks e). \<exists>i \<in> set (instructions c).
          in_chunk c a \<and> address i = a \<and> entry_get_instruction e a = Inr i))"
proof (cases e)
  case (IsChunk c)
  show ?thesis using Chunk_get_instruction_cases[of c a]
    by (auto simp: IsChunk entry_in_chunk_def entry_get_instruction_def entry_chunks_def head_at_iff)
next
  case (IsSuperChunk sc)
  show ?thesis using first_instruction_cases[of "SuperChunk_values sc" a]
    by (auto simp: IsSuperChunk entry_in_chunk_def entry_get_instruction_def entry_chunks_def
        SuperChunk_in_chunk_def SuperChunk_get_instruction_def list_ex_iff)
qed

lemma get_instruction_loop_cases:
  "(get_instruction_loop es a = Inl IndexError
      \<and> (\<forall>e \<in> set es. \<forall>c \<in> set (entry_chunks e). in_chunk c a \<longrightarrow> \<not> head_at c a))
   \<or> (\<exists>e \<in> set es. \<exists>c \<in> set (entry_chunks e). \<exists>i \<in> set (instructions c).
         in_chunk c a \<and> address i = a \<and> get_instruction_loop es a = Inr i)"
proof (induction es)
  case Nil
  then show ?case by simp
next
  case (Cons e es)
  from entry_cases[of e a] show ?case
  proof
    assume miss: "(\<not> entry_in_chunk e a \<or> entry_get_instruction e a = Inl IndexError)
      \<and> (\<forall>c \<in> set (entry_chunks e). in_chunk c a \<longrightarrow> \<not> head_at c a)"
    then have step: "get_instruction_loop (e # es) a = get_instruction_loop es a" by auto
    show ?thesis using Cons miss unfolding step by auto
  next
    assume "entry_in_chunk e a \<and>
       (\<exists>c \<in> set (entry_chunks e). \<exists>i \<in> set (instructions c).
          in_chunk c a \<and> address i = a \<and> entry_get_instruction e a = Inr i)"
    then show ?thesis by auto
  qed
qed

text \<open>
  C7. For every address, \<open>get_instruction\<close> raises \<open>IndexError\<close> (the spec's
  NotFoundError) exactly when no chunk's range contains the address or no chunk that
  contains it has an instruction head at that address; in particular for an address
  inside a chunk's range that is the head of no instruction of a containing chunk.
  Otherwise it returns an instruction whose head is at the address, from a chunk that
  contains the address. Chunks are the chunks of the program, super chunks flattened.
\<close>

theorem get_instruction_not_found_iff:
  "(get_instruction self a = Inl IndexError) =
     ((\<forall>c \<in> set (all_chunks self). \<not> in_chunk c a)
      \<or> (\<forall>c \<in> set (all_chunks self). in_chunk c a \<longrightarrow> \<not> head_at c a))
   \<and> (get_instruction self a \<noteq> Inl IndexError \<longrightarrow>
        (\<exists>c \<in> set (all_chunks self). \<exists>i \<in> set (instructions c).
           in_chunk c a \<and> address i = a \<and> get_instruction self a = Inr i))"
proof -
  let ?es = "map snd (chunks self)"
  have all: "set (all_chunks self) = (\<Union>e \<in> set ?es. set (entry_chunks e))"
    by (simp add: all_chunks_def)
  from get_instruction_loop_cases[of ?es a] show ?thesis
  proof
    assume "get_instruction_loop ?es a = Inl IndexError
      \<and> (\<forall>e \<in> set ?es. \<forall>c \<in> set (entry_chunks e). in_chunk c a \<longrightarrow> \<not> head_at c a)"
    then show ?thesis unfolding get_instruction_def all by auto
  next
    assume "\<exists>e \<in> set ?es. \<exists>c \<in> set (entry_chunks e). \<exists>i \<in> set (instructions c).
         in_chunk c a \<and> address i = a \<and> get_instruction_loop ?es a = Inr i"
    then obtain e c i where h: "e \<in> set ?es" "c \<in> set (entry_chunks e)" "i \<in> set (instructions c)"
      "in_chunk c a" "address i = a" "get_instruction_loop ?es a = Inr i" by blast
    then have c: "c \<in> set (all_chunks self)" unfolding all by blast
    have hd: "head_at c a" using h by (auto simp: head_at_iff)
    show ?thesis unfolding get_instruction_def using h c hd by auto
  qed
qed

lemma example_all_chunks: "all_chunks example_program = [chunk_A, part_0, part_1, chunk_B]"
  by (simp add: all_chunks_def example_chunks entry_chunks_def super_1_def SuperChunk_values_def)

theorem get_instruction_not_found_iff_witness:
  "get_instruction example_program 20 = Inr \<lparr>address = 20, mnemonic = ''call''\<rparr>
   \<and> get_instruction example_program 48 = Inr \<lparr>address = 48, mnemonic = ''ret''\<rparr>
   \<and> in_chunk chunk_A 18 \<and> \<not> head_at chunk_A 18
   \<and> get_instruction example_program 18 = Inl IndexError
   \<and> list_all (\<lambda>c. \<not> in_chunk c 100) (all_chunks example_program)
   \<and> get_instruction example_program 100 = Inl IndexError"
proof -
  note t = get_instruction_not_found_iff[of example_program]
  have a: "get_instruction example_program 20 = Inr \<lparr>address = 20, mnemonic = ''call''\<rparr>"
    using t[of 20]
    by (simp add: example_all_chunks in_chunk_def head_at_def chunk_A_def part_0_def part_1_def chunk_B_def)
  have b: "get_instruction example_program 48 = Inr \<lparr>address = 48, mnemonic = ''ret''\<rparr>"
    using t[of 48]
    by (simp add: example_all_chunks in_chunk_def head_at_def chunk_A_def part_0_def part_1_def chunk_B_def)
  have c: "get_instruction example_program 18 = Inl IndexError"
    using t[of 18]
    by (simp add: example_all_chunks in_chunk_def head_at_def chunk_A_def part_0_def part_1_def chunk_B_def)
  have d: "get_instruction example_program 100 = Inl IndexError"
    using t[of 100]
    by (simp add: example_all_chunks in_chunk_def head_at_def chunk_A_def part_0_def part_1_def chunk_B_def)
  have e: "in_chunk chunk_A 18 \<and> \<not> head_at chunk_A 18"
    by (simp add: in_chunk_def head_at_def chunk_A_def)
  have f: "list_all (\<lambda>c. \<not> in_chunk c 100) (all_chunks example_program)"
    by (simp add: example_all_chunks in_chunk_def chunk_A_def part_0_def part_1_def chunk_B_def)
  show ?thesis using a b c d e f by blast
qed

subsection \<open>call_graph\<close>

lemma add_node_sets:
  "set (nodes (add_node n g)) = insert n (set (nodes g))" "edges (add_node n g) = edges g"
  by (auto simp: add_node_def)

lemma add_edge_sets:
  "set (edges (add_edge e g)) = insert e (set (edges g))"
  "set (nodes (add_edge e g)) = {fst e, snd e} \<union> set (nodes g)"
  by (auto simp: add_edge_def Let_def add_node_sets)

lemma add_edges_from_sets:
  "set (edges (add_edges_from es g)) = set es \<union> set (edges g)"
  "set (nodes (add_edges_from es g)) = fst ` set es \<union> snd ` set es \<union> set (nodes g)"
  unfolding add_edges_from_def
  by (induction es arbitrary: g) (auto simp: add_edge_sets)

lemma product1_set: "set (product1 n (map Addr (calls c))) = chunk_edges n c"
  by (auto simp: product1_def chunk_edges_def)

lemma small_chunks_loop_edges:
  "set (edges (small_chunks_loop ss g)) = (\<Union>s \<in> set ss. chunk_edges (Obj s) s) \<union> set (edges g)"
  by (induction ss arbitrary: g) (auto simp: add_edges_from_sets product1_set)

lemma call_graph_loop_edges:
  "set (edges (call_graph_loop es g)) = (\<Union>e \<in> set es. entry_edges e) \<union> set (edges g)"
  by (induction es g rule: call_graph_loop.induct)
     (auto simp: add_edges_from_sets add_node_sets product1_set small_chunks_loop_edges)

lemma small_chunks_loop_nodes_mono: "set (nodes g) \<subseteq> set (nodes (small_chunks_loop ss g))"
proof (induction ss arbitrary: g)
  case Nil
  then show ?case by simp
next
  case (Cons s ss)
  have "set (nodes g) \<subseteq> set (nodes (add_edges_from (product1 (Obj s) (map Addr (calls s))) g))"
    by (auto simp: add_edges_from_sets)
  also have "\<dots> \<subseteq> set (nodes (small_chunks_loop (s # ss) g))"
    using Cons by simp
  finally show ?case .
qed

lemma call_graph_loop_nodes_mono: "set (nodes g) \<subseteq> set (nodes (call_graph_loop es g))"
proof (induction es g rule: call_graph_loop.induct)
  case (1 g)
  then show ?case by simp
next
  case (2 chunk rest g)
  then show ?case by (auto simp: add_edges_from_sets add_node_sets)
next
  case (3 chunk rest g)
  then show ?case using small_chunks_loop_nodes_mono by fastforce
qed

lemma call_graph_loop_targets:
  "IsChunk c \<in> set es \<Longrightarrow> z \<in> set (calls c) \<Longrightarrow> Addr z \<in> set (nodes (call_graph_loop es g))"
proof (induction es g rule: call_graph_loop.induct)
  case (1 g)
  then show ?case by simp
next
  case (2 chunk rest g)
  show ?case
  proof (cases "c = chunk")
    case True
    have "Addr z \<in> set (nodes (add_edges_from (product1 (Addr (Chunk.start chunk)) (map Addr (calls chunk)))
          (add_node (Addr (Chunk.start chunk)) g)))"
      using 2(3) True by (auto simp: add_edges_from_sets product1_set chunk_edges_def image_iff)
    then show ?thesis using call_graph_loop_nodes_mono by fastforce
  next
    case False
    then show ?thesis using 2 by auto
  qed
next
  case (3 chunk rest g)
  then show ?case by auto
qed

lemma sink_node:
  assumes "IsChunk c \<in> set (map snd (chunks self))" and "z \<in> set (calls c)"
    and "\<forall>c'. IsChunk c' \<in> set (map snd (chunks self)) \<longrightarrow> Chunk.start c' \<noteq> z"
  shows "Addr z \<in> set (nodes (call_graph self))
    \<and> 1 \<le> in_degree (call_graph self) (Addr z)
    \<and> out_degree (call_graph self) (Addr z) = 0"
proof -
  let ?es = "map snd (chunks self)"
  have E: "set (edges (call_graph self)) = (\<Union>e \<in> set ?es. entry_edges e)"
    by (simp add: call_graph_def call_graph_loop_edges)
  have n: "Addr z \<in> set (nodes (call_graph self))"
    unfolding call_graph_def by (rule call_graph_loop_targets[OF assms(1,2)])
  have "(Addr (Chunk.start c), Addr z) \<in> entry_edges (IsChunk c)"
    using assms(2) by (simp add: chunk_edges_def)
  then have "(Addr (Chunk.start c), Addr z) \<in> set (edges (call_graph self))"
    unfolding E using assms(1) by blast
  then have "filter (\<lambda>e. snd e = Addr z) (edges (call_graph self)) \<noteq> []"
    by (force simp: filter_empty_conv)
  then have i: "1 \<le> in_degree (call_graph self) (Addr z)"
    by (simp add: in_degree_def Suc_le_eq)
  have "fst e \<noteq> Addr z" if "e \<in> set (edges (call_graph self))" for e
  proof -
    from that obtain en where en: "en \<in> set ?es" "e \<in> entry_edges en" unfolding E by blast
    show ?thesis
    proof (cases en)
      case (IsChunk c')
      then show ?thesis using en assms(3) by (auto simp: chunk_edges_def)
    next
      case (IsSuperChunk sc)
      then show ?thesis using en by (auto simp: chunk_edges_def)
    qed
  qed
  then have o: "out_degree (call_graph self) (Addr z) = 0"
    by (auto simp: out_degree_def filter_empty_conv)
  show ?thesis using n i o by simp
qed

lemma two_cycle:
  assumes "map snd (chunks self) = [IsChunk A, IsChunk B]"
    and "calls A = [Chunk.start B]" and "calls B = [Chunk.start A]"
    and "Chunk.start A \<noteq> Chunk.start B"
  shows "nodes (call_graph self) = [Addr (Chunk.start A), Addr (Chunk.start B)]
    \<and> edges (call_graph self) =
        [(Addr (Chunk.start A), Addr (Chunk.start B)), (Addr (Chunk.start B), Addr (Chunk.start A))]"
  using assms
  by (simp add: call_graph_def add_edges_from_def product1_def add_edge_def add_node_def Let_def)

text \<open>
  C6, at the input where the code leaves the claim. The example program has a super
  chunk whose constituent \<open>part_0\<close> starts at 32 and calls 16. The edge
  the code adds for it starts at the chunk object \<open>part_0\<close>, not at the address 32:
  the super chunk branch passes \<open>small_chunk\<close> where the ordinary branch passes
  \<open>chunk.start\<close>. No edge leaves address 32 and 32 is not a node. (The two-chunk cycle
  and the sink node of the claim hold: \<open>two_cycle\<close>, \<open>sink_node\<close>.)
\<close>

theorem super_chunk_edges_from_objects:
  "chunks example_program = [(0, IsChunk chunk_A), (1, IsSuperChunk super_1), (2, IsChunk chunk_B)]
   \<and> map snd (starts super_1) = [part_0, part_1]
   \<and> Chunk.start part_0 = 32 \<and> calls part_0 = [16]
   \<and> nodes (call_graph example_program) = [Addr 16, Addr 64, Obj part_0]
   \<and> edges (call_graph example_program)
       = [(Addr 16, Addr 64), (Obj part_0, Addr 16), (Addr 64, Addr 16)]
   \<and> (Addr 32, Addr 16) \<notin> set (edges (call_graph example_program))"
  by (simp add: call_graph_def example_chunks add_edges_from_def product1_def add_edge_def
      add_node_def Let_def super_1_def chunk_A_def chunk_B_def part_0_def part_1_def)

subsection \<open>from_binary\<close>

text \<open>
  C2, at the input where the code leaves the claim. The executable is a file, no
  export exists yet, and the exporter runs into the timeout: \<open>subprocess.run\<close> raises
  \<open>TimeoutExpired\<close>, which \<open>except subprocess.CalledProcessError\<close> does not catch, so
  \<open>from_binary\<close> raises instead of returning \<open>None\<close>. (A missing executable raises
  \<open>FileNotFoundError\<close>, an existing export is loaded without running the exporter,
  and a non-zero exit status or a missing output file give \<open>None\<close>:
  \<open>from_binary_missing_exec\<close>, \<open>from_binary_existing_export\<close>, \<open>from_binary_results\<close>.)
\<close>

theorem from_binary_timeout_raises:
  "is_file timeout_machine ''/bin/ls''
   \<and> fst (child timeout_machine
        [''idat64'', ''-OQuokkaAuto:true'', ''-OQuokkaFile:/bin/ls.Quokka'', ''-o/bin/ls'',
         ''-A'', ''/bin/ls'']
        [(''TVHEADLESS'', ''1''), (''HOME'', ''/root''), (''PATH'', ''''), (''TERM'', ''xterm'')]
        (Some 600)) = TimedOut
   \<and> from_binary timeout_machine ''/bin/ls'' None None False (Some 600) = Inl TimeoutExpired"
  by (simp add: from_binary_def timeout_machine_def subprocess_run_def environ_get_def Let_def)

lemma from_binary_missing_exec:
  "\<not> is_file m exec_path \<Longrightarrow>
     from_binary m exec_path output_file database_file debug timeout
       = Inl (FileNotFoundError ''Missing exec file'')"
  by (simp add: from_binary_def)

lemma from_binary_existing_export:
  assumes "is_file m exec_path"
    and "is_file m (case output_file of None \<Rightarrow> exec_path @ ''.Quokka'' | Some f \<Rightarrow> f)"
  shows "from_binary m exec_path output_file database_file debug timeout
       = construct m (case output_file of None \<Rightarrow> exec_path @ ''.Quokka'' | Some f \<Rightarrow> f) exec_path"
  using assms by (simp add: from_binary_def Let_def)

lemma from_binary_results:
  assumes "is_file m exec_path"
    and "\<not> is_file m (case output_file of None \<Rightarrow> exec_path @ ''.Quokka'' | Some f \<Rightarrow> f)"
    and "map_of (environ m) ''HOME'' = Some home"
    and "\<forall>cmd env. (\<exists>rc err. fst (child m cmd env timeout) = Exited rc err \<and>
           (rc \<noteq> 0 \<or> \<not> snd (child m cmd env timeout)
              (case output_file of None \<Rightarrow> exec_path @ ''.Quokka'' | Some f \<Rightarrow> f)))"
  shows "from_binary m exec_path output_file database_file debug timeout = Inr None"
proof -
  let ?out = "case output_file of None \<Rightarrow> exec_path @ ''.Quokka'' | Some f \<Rightarrow> f"
  have *: "(case subprocess_run m cmd env timeout True of
              Inl e \<Rightarrow> (if e = CalledProcessError then Inr None else Inl e)
            | Inr result \<Rightarrow> if \<not> snd (child m cmd env timeout) ?out then Inr None
                 else construct m ?out exec_path) = Inr None" for cmd env
  proof -
    from assms(4) obtain rc err where e: "fst (child m cmd env timeout) = Exited rc err"
      "rc \<noteq> 0 \<or> \<not> snd (child m cmd env timeout) ?out" by blast
    then show ?thesis by (auto simp: subprocess_run_def)
  qed
  show ?thesis using assms(1-3) by (simp add: from_binary_def Let_def *)
qed

end
